theory Spec2Isabelle
  imports Main "HOL-Library.Sublist"
begin

section \<open>Go strings and the \<^verbatim>\<open>strings\<close> package\<close>

text \<open>
  A Go \<^verbatim>\<open>string\<close> is a sequence of bytes; it is modelled as \<^typ>\<open>string\<close>, a list of
  8-bit characters, so \<^term>\<open>length\<close> is Go's \<^verbatim>\<open>len\<close> and slicing is
  \<^term>\<open>take\<close>/\<^term>\<open>drop\<close>. Bytes outside ASCII are written by their code
  (\<^verbatim>\<open>CHR 0xE2\<close>).

  The functions of Go's standard \<^verbatim>\<open>strings\<close> package are not part of the repository.
  They are modelled on bytes: \<open>ToLower\<close> maps the letters \<^verbatim>\<open>A\<close>..\<^verbatim>\<open>Z\<close> and leaves every
  other byte alone, and the white space of \<open>TrimSpace\<close> and \<open>Fields\<close> is the six ASCII
  white-space bytes. This is what the Go functions do on ASCII text; on text with
  multi-byte runes Go additionally folds the case of non-ASCII letters and trims
  non-ASCII spaces, which the model leaves out.
\<close>

definition toLowerByte :: "char \<Rightarrow> char" where
  "toLowerByte c =
     (case map_of (zip ''ABCDEFGHIJKLMNOPQRSTUVWXYZ'' ''abcdefghijklmnopqrstuvwxyz'') c of
        Some l \<Rightarrow> l
      | None \<Rightarrow> c)"

definition ToLower :: "string \<Rightarrow> string" where
  "ToLower s = map toLowerByte s"

definition isSpace :: "char \<Rightarrow> bool" where
  "isSpace c \<longleftrightarrow> c \<in> set [CHR 0x09, CHR 0x0A, CHR 0x0B, CHR 0x0C, CHR 0x0D, CHR 0x20]"

definition TrimSpace :: "string \<Rightarrow> string" where
  "TrimSpace s = rev (dropWhile isSpace (rev (dropWhile isSpace s)))"

text \<open>\<^verbatim>\<open>strings.Contains(s, sub)\<close>: \<open>sub\<close> occurs in \<open>s\<close> as a contiguous run of bytes.\<close>

definition Contains :: "string \<Rightarrow> string \<Rightarrow> bool" where
  "Contains s sub = sublist sub s"

text \<open>\<^verbatim>\<open>strings.HasPrefix(s, p)\<close>.\<close>

definition HasPrefix :: "string \<Rightarrow> string \<Rightarrow> bool" where
  "HasPrefix s p = prefix p s"

text \<open>
  \<^verbatim>\<open>strings.Index(s, sub)\<close>: the offset of the first occurrence, \<open>None\<close> for Go's \<open>-1\<close>.
\<close>

fun Index :: "string \<Rightarrow> string \<Rightarrow> nat option" where
  "Index [] sub = (if sub = [] then Some 0 else None)"
| "Index (c # cs) sub =
     (if prefix sub (c # cs) then Some 0 else map_option Suc (Index cs sub))"

text \<open>
  \<^verbatim>\<open>strings.ReplaceAll(s, old, new)\<close>: the non-overlapping occurrences of \<open>old\<close> are
  replaced from the left. Go returns \<open>s\<close> itself when \<open>old = new\<close>; with an empty
  \<open>old\<close> it puts \<open>new\<close> in front of every rune and at the end (here: every byte).
\<close>

fun replaceNonEmpty :: "string \<Rightarrow> string \<Rightarrow> string \<Rightarrow> string" where
  "replaceNonEmpty [] old new = []"
| "replaceNonEmpty (c # cs) old new =
     (if old \<noteq> [] \<and> prefix old (c # cs)
      then new @ replaceNonEmpty (drop (length old - 1) cs) old new
      else c # replaceNonEmpty cs old new)"

definition ReplaceAll :: "string \<Rightarrow> string \<Rightarrow> string \<Rightarrow> string" where
  "ReplaceAll s old new =
     (if old = new then s
      else if old = [] then new @ concat (map (\<lambda>c. c # new) s)
      else replaceNonEmpty s old new)"

section \<open>Package \<^verbatim>\<open>safety\<close>: the command classifier\<close>

datatype Level = Safe | NeedsConfirm | Blocked

record Assessment =
  Level :: Level
  Reason :: string
  Command :: string

record pattern =
  match :: string
  reason :: string

record Checker =
  blockedPatterns :: "pattern list"
  confirmPatterns :: "pattern list"

definition pat :: "string \<Rightarrow> string \<Rightarrow> pattern" where
  "pat m r = \<lparr>match = m, reason = r\<rparr>"

text \<open>The em dash of the source text, in UTF-8.\<close>

definition emDash :: string where
  "emDash = [CHR 0xE2, CHR 0x80, CHR 0x94]"

text \<open>A backslash and a double quote, which string literals cannot hold.\<close>

abbreviation bsl :: char where
  "bsl \<equiv> CHR 0x5C"

abbreviation dqt :: char where
  "dqt \<equiv> CHR 0x22"

definition NewChecker :: Checker where
  "NewChecker = \<lparr>
     blockedPatterns = [
       pat ''format-volume''
         (''Cannot format volumes '' @ emDash @ '' this destroys data permanently''),
       pat ''format c:'' ''Cannot format system drive'',
       pat ''format d:'' ''Cannot format drives'',
       pat (''remove-item -recurse c:'' @ [bsl] @ ''windows'')
         ''Cannot delete Windows system directory'',
       pat ''remove-item -recurse c:/windows'' ''Cannot delete Windows system directory'',
       pat (''del /s /q c:'' @ [bsl] @ ''windows'') ''Cannot delete Windows system directory'',
       pat (''rd /s /q c:'' @ [bsl] @ ''windows'') ''Cannot delete Windows system directory'',
       pat ''rm -rf /'' ''Cannot delete root directory'',
       pat (''del /s /q c:'' @ [bsl]) ''Cannot recursively delete system drive'',
       pat (''rd /s /q c:'' @ [bsl]) ''Cannot recursively delete system drive'',
       pat '':(){:|:&};:'' ''Fork bomb detected'',
       pat ''reg delete hklm'' ''Cannot modify system registry'',
       pat ''remove-itemproperty hklm:'' ''Cannot modify system registry'',
       pat ''net user administrator'' ''Cannot modify administrator account'',
       pat ''set-executionpolicy unrestricted'' ''Cannot weaken security policy''],
     confirmPatterns = [
       pat ''stop-process'' ''This will terminate a running process'',
       pat ''taskkill'' ''This will terminate a running process'',
       pat ''kill'' ''This will terminate processes'',
       pat ''shutdown'' ''This will shut down the computer'',
       pat ''restart-computer'' ''This will restart the computer'',
       pat ''stop-computer'' ''This will shut down the computer'',
       pat ''remove-item'' ''This will delete files or folders'',
       pat ''del '' ''This will delete files'',
       pat ''rmdir'' ''This will remove a directory'',
       pat ''rd '' ''This will remove a directory'',
       pat ''netsh'' ''This modifies network configuration'',
       pat ''set-dnsclientserveraddress'' ''This changes DNS settings'',
       pat ''stop-service'' ''This will stop a system service'',
       pat ''set-service'' ''This modifies a system service'',
       pat ''sc stop'' ''This will stop a system service'',
       pat ''sc delete'' ''This will delete a system service'']\<rparr>"

text \<open>The two message formats of \<open>Check\<close>; the leading signs are UTF-8 bytes.\<close>

definition blockedReason :: "string \<Rightarrow> string" where
  "blockedReason r = [CHR 0xF0, CHR 0x9F, CHR 0x9A, CHR 0xAB] @ '' BLOCKED: '' @ r"

definition confirmReason :: "string \<Rightarrow> string" where
  "confirmReason r =
     [CHR 0xE2, CHR 0x9A, CHR 0xA0, CHR 0xEF, CHR 0xB8, CHR 0x8F] @ ''  '' @ r @ '' ''
       @ emDash @ '' confirm? (y/n)''"

text \<open>
  \<open>Check\<close> walks the blocked table and returns at the first pattern contained in the
  lower-cased trimmed command, then does the same with the confirm table
  (\<^term>\<open>find\<close> is the loop with its early return).
\<close>

definition Check :: "Checker \<Rightarrow> string \<Rightarrow> Assessment" where
  "Check c command =
     (let lower = ToLower (TrimSpace command) in
      case find (\<lambda>p. Contains lower (match p)) (blockedPatterns c) of
        Some p \<Rightarrow> \<lparr>Level = Blocked, Reason = blockedReason (reason p), Command = command\<rparr>
      | None \<Rightarrow>
          (case find (\<lambda>p. Contains lower (match p)) (confirmPatterns c) of
             Some p \<Rightarrow>
               \<lparr>Level = NeedsConfirm, Reason = confirmReason (reason p), Command = command\<rparr>
           | None \<Rightarrow> \<lparr>Level = Safe, Reason = [], Command = command\<rparr>))"

section \<open>Package \<^verbatim>\<open>memory\<close>: the conversation memory\<close>

text \<open>
  A \<^verbatim>\<open>time.Time\<close> is read by the code through two formats only: the calendar day
  (\<^verbatim>\<open>Format("2006-01-02")\<close>) and the hour and minute (\<^verbatim>\<open>Format("15:04")\<close>). A time
  value is modelled as the pair of the two.
\<close>

record Time =
  ymd :: string
  hhmm :: string

record Exchange =
  Timestamp :: Time
  UserInput :: string
  ExCommand :: string
  ExResult :: string
  ExResponse :: string

text \<open>
  The \<^verbatim>\<open>Memory\<close> struct without its mutex: every method holds the lock from entry to
  return, so a method is one atomic step on this record. The two bounds are Go
  \<^verbatim>\<open>int\<close>s and may be negative.
\<close>

record Memory =
  dataDir :: string
  WorkingDir :: string
  LastAction :: string
  LastCreated :: string
  Exchanges :: "Exchange list"
  MaxExchanges :: int
  CompactAfter :: int

text \<open>
  The note files on disk: the contents of the files that exist, and which paths
  \<^verbatim>\<open>os.OpenFile\<close> with \<^verbatim>\<open>O_APPEND|O_CREATE|O_WRONLY\<close> can open (it cannot when the
  directory is missing or not writable). \<^verbatim>\<open>filepath.Join\<close> depends on the operating
  system and is a parameter.
\<close>

record Disk =
  files :: "string \<rightharpoonup> string"
  canOpen :: "string \<Rightarrow> bool"


abbreviation nl :: char where
  "nl \<equiv> CHR 0x0A"


text \<open>\<^verbatim>\<open>strings.Trim(s, cutset)\<close>, \<^verbatim>\<open>TrimLeft\<close>, \<^verbatim>\<open>IndexAny\<close>, \<^verbatim>\<open>Split\<close> on one byte and \<^verbatim>\<open>Fields\<close>.\<close>

definition TrimLeft :: "string \<Rightarrow> string \<Rightarrow> string" where
  "TrimLeft s cutset = dropWhile (\<lambda>c. c \<in> set cutset) s"

definition Trim :: "string \<Rightarrow> string \<Rightarrow> string" where
  "Trim s cutset = rev (TrimLeft (rev (TrimLeft s cutset)) cutset)"

definition IndexAny :: "string \<Rightarrow> string \<Rightarrow> nat option" where
  "IndexAny s chars =
     (if list_ex (\<lambda>c. c \<in> set chars) s
      then Some (length (takeWhile (\<lambda>c. c \<notin> set chars) s))
      else None)"

fun splitWhen :: "(char \<Rightarrow> bool) \<Rightarrow> string \<Rightarrow> string list" where
  "splitWhen P [] = [[]]"
| "splitWhen P (c # cs) =
     (if P c then [] # splitWhen P cs
      else (case splitWhen P cs of [] \<Rightarrow> [[c]] | w # ws \<Rightarrow> (c # w) # ws))"

definition Fields :: "string \<Rightarrow> string list" where
  "Fields s = filter (\<lambda>w. w \<noteq> []) (splitWhen isSpace s)"

definition quoteChars :: string where
  "quoteChars = [CHR 0x27, dqt]"

definition ExtractNameFromCommand :: "string \<Rightarrow> string" where
  "ExtractNameFromCommand cmd =
     (let lower = ToLower cmd in
      case Index lower ''-name'' of
        Some idx \<Rightarrow>
          (let rest = TrimSpace (drop (idx + 5) cmd);
               rest = TrimLeft rest '' '';
               name = Trim rest quoteChars
           in case IndexAny name [CHR '' '', CHR 0x09] of
                Some sp \<Rightarrow> take sp name
              | None \<Rightarrow> name)
      | None \<Rightarrow>
          (if Contains lower ''mkdir''
           then (let parts = Fields cmd in
                 if length parts \<ge> 2 then Trim (last parts) quoteChars else [])
           else []))"

definition ExtractPathFromCommand :: "string \<Rightarrow> string" where
  "ExtractPathFromCommand cmd =
     (let parts = Fields cmd in
      if length parts \<ge> 2 then Trim (last parts) quoteChars else [])"





text \<open>
  The context hints that \<open>RecordExchange\<close> updates: the last action is the response,
  and a command that creates or opens something sets the last created name.
\<close>

definition updateHints :: "string \<Rightarrow> string \<Rightarrow> Memory \<Rightarrow> Memory" where
  "updateHints command response m =
     (let m = m\<lparr>LastAction := response\<rparr> in
      if command \<noteq> [] then
        (let lower = ToLower command in
         if Contains lower ''new-item'' \<or> Contains lower ''mkdir''
         then m\<lparr>LastCreated := ExtractNameFromCommand command\<rparr>
         else if Contains lower ''explorer''
         then m\<lparr>LastCreated := ExtractPathFromCommand command\<rparr>
         else m)
      else m)"




text \<open>
  A caller that records one exchange after the other, as the session loop and the
  tests do. A call is the two clock readings and the four arguments of
  \<open>RecordExchange\<close>; \<open>exchangeOf\<close> is the exchange the call appends.
\<close>

record call =
  callAt :: Time
  callCompactAt :: Time
  callInput :: string
  callCommand :: string
  callResult :: string
  callResponse :: string

definition exchangeOf :: "call \<Rightarrow> Exchange" where
  "exchangeOf c =
     \<lparr>Timestamp = callAt c, UserInput = callInput c, ExCommand = callCommand c,
      ExResult = callResult c, ExResponse = callResponse c\<rparr>"


definition Clear :: "Memory \<Rightarrow> Memory" where
  "Clear m = m\<lparr>Exchanges := [], LastAction := [], LastCreated := []\<rparr>"

definition NewMemory :: "string \<Rightarrow> string \<Rightarrow> Memory" where
  "NewMemory dir cwd =
     \<lparr>dataDir = dir, WorkingDir = cwd, LastAction = [], LastCreated = [], Exchanges = [],
      MaxExchanges = 5, CompactAfter = 20\<rparr>"

section \<open>Package \<^verbatim>\<open>planner\<close>: from model text to a command plan\<close>

record CommandPlan =
  PlanCommand :: "string option"
  Shell :: string
  Response :: string
  Reasoning :: string
  PlanSafe :: bool

text \<open>The zero value of the struct, as \<^verbatim>\<open>var plan CommandPlan\<close> declares it.\<close>

definition zeroPlan :: CommandPlan where
  "zeroPlan = \<lparr>PlanCommand = None, Shell = [], Response = [], Reasoning = [], PlanSafe = False\<rparr>"

text \<open>
  The planner holds a language model, a memory (the pointer may be nil) and the default
  shell. The model is called once per plan, before anything else is computed from its
  answer; the outcome of that call, the completion text or an error message, is an
  argument of \<open>Plan\<close> below.
\<close>

record Planner =
  mem :: "Memory option"
  shell :: string

text \<open>
  \<^verbatim>\<open>json.Unmarshal(data, &plan)\<close> belongs to Go's standard library. It is a parameter:
  a function from the text and the plan it decodes into to an error, if any, and the
  plan after the call (a failed call may have stored some fields).
\<close>

type_synonym unmarshal = "string \<Rightarrow> CommandPlan \<Rightarrow> string option \<times> CommandPlan"

definition validEscapes :: "char \<Rightarrow> bool" where
  "validEscapes c \<longleftrightarrow> c \<in> set [dqt, bsl, CHR ''/'', CHR ''n'', CHR ''r'', CHR ''t'', CHR ''u'']"

text \<open>
  The loop of \<open>sanitizeJSON\<close>. \<open>prev\<close> is the byte before the current one (\<open>None\<close> at
  index 0), \<open>inString\<close> the flag of the source; the third argument is the input from
  the current index on, so its second byte is \<^verbatim>\<open>s[i+1]\<close>.
\<close>

fun sanitizeLoop :: "char option \<Rightarrow> bool \<Rightarrow> string \<Rightarrow> string" where
  "sanitizeLoop prev inString [] = []"
| "sanitizeLoop prev inString (ch # rest) =
     (if ch = dqt \<and> prev \<noteq> Some bsl
      then ch # sanitizeLoop (Some ch) (\<not> inString) rest
      else if inString \<and> ch = bsl \<and> (case rest of [] \<Rightarrow> False | next # _ \<Rightarrow> \<not> validEscapes next)
      then bsl # bsl # sanitizeLoop (Some ch) inString rest
      else ch # sanitizeLoop (Some ch) inString rest)"

definition sanitizeJSON :: "string \<Rightarrow> string" where
  "sanitizeJSON s = sanitizeLoop None False s"

text \<open>
  \<open>ExtractJSON\<close>: from the first opening brace, count braces until the depth is back
  at zero. \<open>scanBraces\<close> returns the number of bytes up to and including that closing
  brace.
\<close>

fun scanBraces :: "int \<Rightarrow> string \<Rightarrow> nat option" where
  "scanBraces depth [] = None"
| "scanBraces depth (c # cs) =
     (if c = CHR ''{'' then map_option Suc (scanBraces (depth + 1) cs)
      else if c = CHR ''}'' then
        (if depth - 1 = 0 then Some 1 else map_option Suc (scanBraces (depth - 1) cs))
      else map_option Suc (scanBraces depth cs))"

definition ExtractJSON :: "string \<Rightarrow> string" where
  "ExtractJSON s =
     (case Index s ''{'' of
        None \<Rightarrow> []
      | Some start \<Rightarrow>
          (case scanBraces 0 (drop start s) of
             None \<Rightarrow> []
           | Some n \<Rightarrow> take n (drop start s)))"

text \<open>The text that \<open>ParseResponse\<close> hands to the decoder.\<close>

definition candidate :: "string \<Rightarrow> string" where
  "candidate raw =
     (let raw = TrimSpace raw; jsonStr = ExtractJSON raw in
      if jsonStr = [] then raw else jsonStr)"

definition ParseResponse :: "unmarshal \<Rightarrow> string \<Rightarrow> string + CommandPlan" where
  "ParseResponse unm raw =
     (let jsonStr = candidate raw;
          (err, plan) = unm jsonStr zeroPlan;
          (err, plan) =
            (if err \<noteq> None then unm (sanitizeJSON jsonStr) plan else (err, plan))
      in case err of
           Some e \<Rightarrow> Inl (''JSON parse error: '' @ e)
         | None \<Rightarrow>
             (case PlanCommand plan of
                Some c \<Rightarrow>
                  if TrimSpace c = ''null'' \<or> TrimSpace c = []
                  then Inr (plan\<lparr>PlanCommand := None\<rparr>)
                  else Inr plan
              | None \<Rightarrow> Inr plan))"

text \<open>
  \<open>sanitizeCommand\<close>: the five spellings of the working directory, removed first
  wherever they occur and then once more each without regard to case.
\<close>

definition cwdVariants :: "string \<Rightarrow> string list" where
  "cwdVariants workingDir =
     [workingDir @ [bsl],
      workingDir @ ''/'',
      ReplaceAll workingDir [bsl] ''/'' @ ''/'',
      ReplaceAll workingDir ''/'' [bsl] @ [bsl],
      ReplaceAll (ReplaceAll workingDir [bsl] []) ''/'' []]"

definition stripFold :: "string \<Rightarrow> string \<Rightarrow> string" where
  "stripFold result pfx =
     (case Index (ToLower result) (ToLower pfx) of
        Some idx \<Rightarrow> take idx result @ drop (idx + length pfx) result
      | None \<Rightarrow> result)"

definition sanitizeCommand :: "string \<Rightarrow> string \<Rightarrow> string" where
  "sanitizeCommand command workingDir =
     (if workingDir = [] then command
      else
        (let variants = cwdVariants workingDir;
             result = foldl (\<lambda>r pfx. ReplaceAll r pfx []) command variants
         in foldl stripFold result variants))"

definition Plan :: "unmarshal \<Rightarrow> Planner \<Rightarrow> string + string \<Rightarrow> string + CommandPlan" where
  "Plan unm p inferred =
     (case inferred of
        Inl err \<Rightarrow> Inl (''LLM inference failed: '' @ err)
      | Inr rawResponse \<Rightarrow>
          (case ParseResponse unm rawResponse of
             Inl err \<Rightarrow>
               Inr \<lparr>PlanCommand = None, Shell = [], Response = rawResponse,
                    Reasoning = ''Could not parse structured output, returning as chat'',
                    PlanSafe = False\<rparr>
           | Inr plan \<Rightarrow>
               (let plan = (if Shell plan = [] then plan\<lparr>Shell := shell p\<rparr> else plan)
                in case (PlanCommand plan, mem p) of
                     (Some c, Some m) \<Rightarrow>
                       Inr (plan\<lparr>PlanCommand := Some (sanitizeCommand c (WorkingDir m))\<rparr>)
                   | _ \<Rightarrow> Inr plan)))"

section \<open>Package \<^verbatim>\<open>executor\<close>: running a command\<close>

text \<open>
  The result of an execution. The \<^verbatim>\<open>Duration\<close> field holds elapsed wall-clock time,
  which no decision of the code depends on; it is left out.
\<close>

record Result =
  Success :: bool
  Output :: string
  Error :: string
  NewWorkDir :: string
  CurrentWorkDir :: string

record Executor =
  ExecWorkingDir :: string
  Timeout :: int

text \<open>
  What the executor asks of the host. \<^verbatim>\<open>os.Stat\<close> answers with a directory, with
  something that is not a directory, or with an error (the message is kept), which
  \<^verbatim>\<open>os.IsNotExist\<close> may or may not recognise.
\<close>

datatype statResult = StatDir | StatOther | StatNotExist string | StatError string

text \<open>
  \<^verbatim>\<open>cmd.Run()\<close> returns no error, an \<^verbatim>\<open>*exec.ExitError\<close> with an exit code, or
  another error; each error carries its message. After the run the code also asks the
  context whether its deadline has passed.
\<close>

datatype runError = ExitError int string | OtherError string

fun errorText :: "runError \<Rightarrow> string" where
  "errorText (ExitError code msg) = msg"
| "errorText (OtherError msg) = msg"

record procOutcome =
  deadlineExceeded :: bool
  runErr :: "runError option"
  stdout :: string
  stderr :: string

text \<open>
  The host: the path functions of \<^verbatim>\<open>path/filepath\<close>, the file system as \<^verbatim>\<open>os.Stat\<close>
  and \<^verbatim>\<open>os.Getwd\<close> show it, the subprocess runner (program, arguments, directory and
  time limit to outcome) and the text of a duration under \<^verbatim>\<open>%v\<close>.
\<close>

record host =
  IsAbs :: "string \<Rightarrow> bool"
  Join :: "string list \<Rightarrow> string"
  Clean :: "string \<Rightarrow> string"
  Stat :: "string \<Rightarrow> statResult"
  Getwd :: "string option"
  Run :: "string \<Rightarrow> string list \<Rightarrow> string \<Rightarrow> int \<Rightarrow> procOutcome"
  FormatDuration :: "int \<Rightarrow> string"

text \<open>A subprocess that was started: program, arguments and working directory.\<close>

type_synonym spawn = "string \<times> string list \<times> string"

definition cleanPathArg :: "string \<Rightarrow> string" where
  "cleanPathArg s =
     (let s = TrimSpace s in
      if length s \<ge> 2 \<and>
         ((hd s = CHR 0x27 \<and> last s = CHR 0x27) \<or> (hd s = dqt \<and> last s = dqt))
      then take (length s - 2) (drop 1 s)
      else s)"

definition extractCDTarget :: "string \<Rightarrow> string option" where
  "extractCDTarget command =
     (let cmd = TrimSpace command; lower = ToLower cmd in
      if HasPrefix lower ''cd '' then Some (cleanPathArg (drop 3 cmd))
      else if HasPrefix lower ''set-location '' then
        (let rest = TrimSpace (drop 13 cmd);
             rest = (if HasPrefix (ToLower rest) ''-path '' then TrimSpace (drop 6 rest)
                     else rest)
         in Some (cleanPathArg rest))
      else if HasPrefix lower ''sl '' then Some (cleanPathArg (drop 3 cmd))
      else None)"

definition handleCD :: "host \<Rightarrow> Executor \<Rightarrow> string \<Rightarrow> Result \<times> Executor" where
  "handleCD h e target =
     (let newDir = (if IsAbs h target then target else Join h [ExecWorkingDir e, target]);
          newDir = Clean h newDir;
          cannot = (\<lambda>err. (\<lparr>Success = False, Output = [],
                      Error = ''Cannot navigate to '' @ [CHR 0x27] @ target @ [CHR 0x27]
                                @ '': '' @ err,
                      NewWorkDir = [], CurrentWorkDir = ExecWorkingDir e\<rparr>, e))
      in case Stat h newDir of
           StatNotExist err \<Rightarrow> cannot err
         | StatError err \<Rightarrow> cannot err
         | StatOther \<Rightarrow>
             (\<lparr>Success = False, Output = [],
               Error = [CHR 0x27] @ target @ [CHR 0x27] @ '' is not a directory'',
               NewWorkDir = [], CurrentWorkDir = ExecWorkingDir e\<rparr>, e)
         | StatDir \<Rightarrow>
             (\<lparr>Success = True, Output = ''Directory: '' @ newDir, Error = [],
               NewWorkDir = newDir, CurrentWorkDir = newDir\<rparr>,
              e\<lparr>ExecWorkingDir := newDir\<rparr>))"

text \<open>\<^verbatim>\<open>strings.Join(lines, "\n")\<close>, as the loop of \<open>cleanTerminalOutput\<close> builds it.\<close>

fun joinLines :: "string list \<Rightarrow> string" where
  "joinLines [] = []"
| "joinLines [l] = l"
| "joinLines (l # ls) = l @ [nl] @ joinLines ls"

abbreviation cr :: char where
  "cr \<equiv> CHR 0x0D"

text \<open>The text after the last carriage return of a line (the whole line without one).\<close>

definition afterLastCR :: "string \<Rightarrow> string" where
  "afterLastCR line = rev (takeWhile (\<lambda>c. c \<noteq> cr) (rev line))"

definition cleanTerminalOutput :: "string \<Rightarrow> string" where
  "cleanTerminalOutput s =
     (let s = ReplaceAll s [cr, nl] [nl] in
      if cr \<notin> set s then s
      else joinLines (map afterLastCR (splitWhen (\<lambda>c. c = nl) s)))"

definition isSearchCommand :: "string \<Rightarrow> bool" where
  "isSearchCommand command =
     (let lowerCmd = ToLower command in
      Contains lowerCmd ''select-string'' \<or> Contains lowerCmd ''grep''
        \<or> Contains lowerCmd ''findstr'')"

text \<open>
  The body of \<open>Execute\<close> after the test for a directory change, in three steps. First the
  stored working directory is checked: when it no longer exists the executor falls back
  to the directory of the process, or to \<^verbatim>\<open>"."\<close> when that cannot be read.
\<close>

definition validateWorkingDir :: "host \<Rightarrow> Executor \<Rightarrow> Executor" where
  "validateWorkingDir h e =
     (case Stat h (ExecWorkingDir e) of
        StatNotExist _ \<Rightarrow>
          (case Getwd h of
             Some cwd \<Rightarrow> e\<lparr>ExecWorkingDir := cwd\<rparr>
           | None \<Rightarrow> e\<lparr>ExecWorkingDir := ''.''\<rparr>)
      | _ \<Rightarrow> e)"

text \<open>Then the interpreter is chosen: \<^verbatim>\<open>cmd\<close> when asked for, PowerShell otherwise.\<close>

definition shellInvocation :: "string \<Rightarrow> string \<Rightarrow> string \<times> string list" where
  "shellInvocation shellName command =
     (if ToLower shellName = ''cmd'' then (''cmd'', [''/C'', command])
      else (''powershell'', [''-NoProfile'', ''-NonInteractive'', ''-Command'', command]))"

text \<open>
  Last the outcome of the run is turned into a result: the deadline is looked at first,
  then the error of the run.
\<close>

definition runResult :: "host \<Rightarrow> Executor \<Rightarrow> string \<Rightarrow> procOutcome \<Rightarrow> Result" where
  "runResult h e command oc =
     (if deadlineExceeded oc then
        \<lparr>Success = False, Output = [],
         Error = ''Command timed out after '' @ FormatDuration h (Timeout e),
         NewWorkDir = [], CurrentWorkDir = ExecWorkingDir e\<rparr>
      else
        (let output = TrimSpace (stdout oc);
             errStr = TrimSpace (stderr oc);
             output = (if errStr \<noteq> [] then
                         (if output \<noteq> [] then output @ [nl] @ errStr else errStr)
                       else output)
         in case runErr oc of
              Some err \<Rightarrow>
                (if (case err of ExitError code _ \<Rightarrow> code = 1 | OtherError _ \<Rightarrow> False)
                    \<and> isSearchCommand command
                 then \<lparr>Success = False, Output = cleanTerminalOutput output,
                        Error = ''No matches found'',
                        NewWorkDir = [], CurrentWorkDir = ExecWorkingDir e\<rparr>
                 else \<lparr>Success = False, Output = cleanTerminalOutput output,
                        Error = (if errStr = [] then errorText err else errStr),
                        NewWorkDir = [], CurrentWorkDir = ExecWorkingDir e\<rparr>)
            | None \<Rightarrow>
                \<lparr>Success = True, Output = cleanTerminalOutput output, Error = [],
                 NewWorkDir = [], CurrentWorkDir = ExecWorkingDir e\<rparr>))"

text \<open>
  \<open>Execute\<close> returns the result, the executor after the call and the subprocesses it
  started. Writing to the log is left out.
\<close>

definition Execute ::
  "host \<Rightarrow> Executor \<Rightarrow> string \<Rightarrow> string \<Rightarrow> Result \<times> Executor \<times> spawn list" where
  "Execute h e command shellName =
     (case extractCDTarget command of
        Some newDir \<Rightarrow> (let (r, e') = handleCD h e newDir in (r, e', []))
      | None \<Rightarrow>
          (let e = validateWorkingDir h e;
               (prog, args) = shellInvocation shellName command;
               dir = ExecWorkingDir e;
               oc = Run h prog args dir (Timeout e)
           in (runResult h e command oc, e, [(prog, args, dir)])))"

definition NewExecutor :: "string \<Rightarrow> Executor" where
  "NewExecutor workingDir = \<lparr>ExecWorkingDir = workingDir, Timeout = 30 * 1000000000\<rparr>"

section \<open>Concrete hosts and inputs for the worked cases\<close>

text \<open>
  A host with a home directory \<^verbatim>\<open>/home/u\<close> that holds a directory \<^verbatim>\<open>proj\<close> and a file
  \<^verbatim>\<open>notes.txt\<close>; every subprocess it runs ends with the given outcome. The path functions
  are those of a Unix host on the paths used below, which are already clean.
\<close>

definition sampleHost :: "procOutcome \<Rightarrow> host" where
  "sampleHost oc =
     \<lparr>IsAbs = (\<lambda>p. HasPrefix p ''/''),
      Join = (\<lambda>ps. case ps of [a, b] \<Rightarrow> a @ ''/'' @ b | _ \<Rightarrow> concat ps),
      Clean = (\<lambda>p. p),
      Stat = (\<lambda>p. if p = ''/home/u'' \<or> p = ''/home/u/proj'' then StatDir
                   else if p = ''/home/u/notes.txt'' then StatOther
                   else StatNotExist (''stat '' @ p @ '': no such file or directory'')),
      Getwd = Some ''/home/u'',
      Run = (\<lambda>prog args dir limit. oc),
      FormatDuration = (\<lambda>d. if d = 30000000000 then ''30s'' else ''?'')\<rparr>"



definition finished :: procOutcome where
  "finished = \<lparr>deadlineExceeded = False, runErr = None, stdout = [], stderr = []\<rparr>"

text \<open>
  Texts a language model may answer with, and a decoder for them. \<open>sampleUnmarshal\<close>
  decodes the two JSON texts \<open>listJSON\<close> and \<open>cwdJSON\<close> as \<^verbatim>\<open>encoding/json\<close> does (the keys
  present are stored, the other fields keep their value) and rejects every other text;
  it stands for the library decoder on the texts used below. \<open>sorryText\<close> is the chat
  answer \<^verbatim>\<open>I'm sorry, I can't do that.\<close> and \<open>mixedEscapes\<close> is the JSON text
  \<^verbatim>\<open>{"command":"cd C:\\Files\Projects"}\<close>, in which the first path separator is escaped
  as JSON requires and the second is not.
\<close>

definition quoted :: "string \<Rightarrow> string" where
  "quoted s = [dqt] @ s @ [dqt]"

definition listJSON :: string where
  "listJSON = ''{'' @ quoted ''command'' @ '':'' @ quoted ''Get-ChildItem /home/u/proj'' @ '',''
     @ quoted ''response'' @ '':'' @ quoted ''Listing files'' @ '','' @ quoted ''safe''
     @ '':true}''"

definition cwdJSON :: string where
  "cwdJSON = ''{'' @ quoted ''command'' @ '':'' @ quoted ''/home/u/'' @ '',''
     @ quoted ''shell'' @ '':'' @ quoted ''bash'' @ '','' @ quoted ''response'' @ '':''
     @ quoted ''here'' @ ''}''"

definition sorryText :: string where
  "sorryText = ''I'' @ [CHR 0x27] @ ''m sorry, I can'' @ [CHR 0x27] @ ''t do that.''"

definition sampleUnmarshal :: unmarshal where
  "sampleUnmarshal data plan =
     (if data = listJSON then
        (None, plan\<lparr>PlanCommand := Some ''Get-ChildItem /home/u/proj'',
                     Response := ''Listing files'', PlanSafe := True\<rparr>)
      else if data = cwdJSON then
        (None, plan\<lparr>PlanCommand := Some ''/home/u/'', Shell := ''bash'', Response := ''here''\<rparr>)
      else (Some ''invalid character'', plan))"

definition samplePlanner :: Planner where
  "samplePlanner = \<lparr>mem = Some (NewMemory ''/home/u/.shell-e'' ''/home/u''), shell = ''powershell''\<rparr>"

definition mixedEscapes :: string where
  "mixedEscapes = ''{'' @ quoted ''command'' @ '':''
     @ quoted (''cd C:'' @ [bsl, bsl] @ ''Files'' @ [bsl] @ ''Projects'') @ ''}''"









section \<open>Auxiliary notions for the proofs about compaction\<close>

text \<open>The memory of one call after the append and the hints, before compaction.\<close>

definition recorded :: "call \<Rightarrow> Memory \<Rightarrow> Memory" where
  "recorded c m =
     updateHints (callCommand c) (callResponse c) (m\<lparr>Exchanges := Exchanges m @ [exchangeOf c]\<rparr>)"




section \<open>Properties of the classifier\<close>

lemmas lower_trim_eval = ToLower_def TrimSpace_def isSpace_def toLowerByte_def

text \<open>
  Claim C1. Whenever the lower-cased trimmed command contains the pattern of some row of
  the blocked table, \<open>Check\<close> answers \<open>Blocked\<close>, whatever the letter case of the command
  and whatever the confirm table would say: the blocked table is searched to its end
  before the confirm table is looked at.
\<close>

theorem Check_blocked_wins:
  assumes "\<exists>p \<in> set (blockedPatterns c). Contains (ToLower (TrimSpace command)) (match p)"
  shows "Level (Check c command) = Blocked"
proof -
  from assms have "find (\<lambda>p. Contains (ToLower (TrimSpace command)) (match p)) (blockedPatterns c) \<noteq> None"
    by (auto simp add: find_None_iff)
  then obtain p where "find (\<lambda>p. Contains (ToLower (TrimSpace command)) (match p)) (blockedPatterns c) = Some p"
    by blast
  then show ?thesis by (simp add: Check_def)
qed

text \<open>
  A command in mixed case that matches a row of both tables is blocked.
\<close>

theorem Check_blocked_wins_witness:
  "(\<exists>p \<in> set (blockedPatterns NewChecker).
      Contains (ToLower (TrimSpace (''  Remove-Item -Recurse C:'' @ [bsl] @ ''Windows ''))) (match p))
   \<and> (\<exists>p \<in> set (confirmPatterns NewChecker).
      Contains (ToLower (TrimSpace (''  Remove-Item -Recurse C:'' @ [bsl] @ ''Windows ''))) (match p))
   \<and> Level (Check NewChecker (''  Remove-Item -Recurse C:'' @ [bsl] @ ''Windows '')) = Blocked"
proof -
  have b: "\<exists>p \<in> set (blockedPatterns NewChecker).
      Contains (ToLower (TrimSpace (''  Remove-Item -Recurse C:'' @ [bsl] @ ''Windows ''))) (match p)"
    by (simp add: lower_trim_eval NewChecker_def pat_def Contains_def sublist_Cons_right)
  have c: "\<exists>p \<in> set (confirmPatterns NewChecker).
      Contains (ToLower (TrimSpace (''  Remove-Item -Recurse C:'' @ [bsl] @ ''Windows ''))) (match p)"
    by (simp add: lower_trim_eval NewChecker_def pat_def Contains_def sublist_Cons_right)
  from b c Check_blocked_wins [OF b] show ?thesis by blast
qed

text \<open>
  Claim C8. A command whose lower-cased trimmed text contains no pattern of either table
  is classified \<open>Safe\<close> with an empty reason; the empty command is such a command for
  the tables of \<open>NewChecker\<close>.
\<close>

theorem Check_no_match_safe:
  "((\<forall>p \<in> set (blockedPatterns c). \<not> Contains (ToLower (TrimSpace command)) (match p)) \<and>
    (\<forall>p \<in> set (confirmPatterns c). \<not> Contains (ToLower (TrimSpace command)) (match p))
    \<longrightarrow> Level (Check c command) = Safe \<and> Reason (Check c command) = [])
   \<and> Level (Check NewChecker []) = Safe \<and> Reason (Check NewChecker []) = []"
proof -
  have gen: "Level (Check c command) = Safe \<and> Reason (Check c command) = []"
    if "\<forall>p \<in> set (blockedPatterns c). \<not> Contains (ToLower (TrimSpace command)) (match p)"
      and "\<forall>p \<in> set (confirmPatterns c). \<not> Contains (ToLower (TrimSpace command)) (match p)"
    for c command
  proof -
    from that have "find (\<lambda>p. Contains (ToLower (TrimSpace command)) (match p)) (blockedPatterns c) = None"
      and "find (\<lambda>p. Contains (ToLower (TrimSpace command)) (match p)) (confirmPatterns c) = None"
      by (simp_all add: find_None_iff)
    then show ?thesis by (simp add: Check_def)
  qed
  have e1: "\<forall>p \<in> set (blockedPatterns NewChecker). \<not> Contains (ToLower (TrimSpace [])) (match p)"
    by (simp add: lower_trim_eval NewChecker_def pat_def Contains_def)
  have e2: "\<forall>p \<in> set (confirmPatterns NewChecker). \<not> Contains (ToLower (TrimSpace [])) (match p)"
    by (simp add: lower_trim_eval NewChecker_def pat_def Contains_def)
  from gen [OF e1 e2] gen show ?thesis by blast
qed

theorem Check_no_match_safe_witness:
  "find (\<lambda>p. Contains (ToLower (TrimSpace ''Get-ChildItem -Path .'')) (match p))
     (blockedPatterns NewChecker) = None
   \<and> find (\<lambda>p. Contains (ToLower (TrimSpace ''Get-ChildItem -Path .'')) (match p))
     (confirmPatterns NewChecker) = None
   \<and> Level (Check NewChecker ''Get-ChildItem -Path .'') = Safe
   \<and> Reason (Check NewChecker ''Get-ChildItem -Path .'') = []"
proof -
  have e1: "\<forall>p \<in> set (blockedPatterns NewChecker).
      \<not> Contains (ToLower (TrimSpace ''Get-ChildItem -Path .'')) (match p)"
    by (simp add: lower_trim_eval NewChecker_def pat_def Contains_def sublist_Cons_right)
  have e2: "\<forall>p \<in> set (confirmPatterns NewChecker).
      \<not> Contains (ToLower (TrimSpace ''Get-ChildItem -Path .'')) (match p)"
    by (simp add: lower_trim_eval NewChecker_def pat_def Contains_def sublist_Cons_right)
  from e1 e2 Check_no_match_safe [of NewChecker "''Get-ChildItem -Path .''"]
  show ?thesis by (simp add: find_None_iff)
qed

section \<open>Properties of the conversation memory\<close>

text \<open>
  Claim C10. \<open>Clear\<close> empties the exchange list and the two hints and leaves the working
  directory as it was.
\<close>

theorem Clear_keeps_working_directory:
  "Exchanges (Clear m) = [] \<and> LastAction (Clear m) = [] \<and> LastCreated (Clear m) = []
   \<and> WorkingDir (Clear m) = WorkingDir m"
  by (simp add: Clear_def)

section \<open>Properties of the executor\<close>

lemmas string_eval = ToLower_def TrimSpace_def isSpace_def toLowerByte_def HasPrefix_def
  Contains_def sublist_Cons_right

lemma Execute_cd:
  "extractCDTarget command = Some target \<Longrightarrow>
   Execute h e command shellName = (fst (handleCD h e target), snd (handleCD h e target), [])"
  by (simp add: Execute_def split: prod.splits)

text \<open>
  Claim C4. A command that \<open>extractCDTarget\<close> recognises as a directory change starts no
  subprocess, and when the result reports success both the result's current working
  directory and the executor's stored one are the cleaned, resolved target: the target
  itself when absolute, otherwise the target joined to the old working directory.
\<close>

theorem Execute_cd_no_subprocess:
  assumes "extractCDTarget command = Some target"
  shows "snd (snd (Execute h e command shellName)) = [] \<and>
         (Success (fst (Execute h e command shellName)) \<longrightarrow>
            CurrentWorkDir (fst (Execute h e command shellName))
              = Clean h (if IsAbs h target then target else Join h [ExecWorkingDir e, target])
          \<and> ExecWorkingDir (fst (snd (Execute h e command shellName)))
              = Clean h (if IsAbs h target then target else Join h [ExecWorkingDir e, target]))"
  using assms by (simp add: Execute_cd handleCD_def Let_def split: statResult.splits)

theorem Execute_cd_no_subprocess_witness:
  "extractCDTarget ''cd proj'' = Some ''proj''
   \<and> Execute (sampleHost finished) (NewExecutor ''/home/u'') ''cd proj'' ''powershell''
       = (\<lparr>Success = True, Output = ''Directory: /home/u/proj'', Error = [],
           NewWorkDir = ''/home/u/proj'', CurrentWorkDir = ''/home/u/proj''\<rparr>,
          NewExecutor ''/home/u/proj'', [])"
proof -
  have t: "extractCDTarget ''cd proj'' = Some ''proj''"
    by (simp add: extractCDTarget_def cleanPathArg_def string_eval)
  have "Execute (sampleHost finished) (NewExecutor ''/home/u'') ''cd proj'' ''powershell''
       = (\<lparr>Success = True, Output = ''Directory: /home/u/proj'', Error = [],
           NewWorkDir = ''/home/u/proj'', CurrentWorkDir = ''/home/u/proj''\<rparr>,
          NewExecutor ''/home/u/proj'', [])"
    by (simp add: Execute_cd [OF t] handleCD_def sampleHost_def NewExecutor_def HasPrefix_def
        Let_def)
  with t Execute_cd_no_subprocess [OF t, of "sampleHost finished" "NewExecutor ''/home/u''"
      "''powershell''"]
  show ?thesis by simp
qed

text \<open>
  Claim C5. When the resolved target of a directory change is not an existing directory
  (\<^verbatim>\<open>os.Stat\<close> fails, or finds something that is not a directory), the result is a
  failure, the executor is exactly as before, and the result's current working
  directory is the unchanged one.
\<close>

theorem Execute_cd_failure_keeps_state:
  assumes "extractCDTarget command = Some target"
    and "Stat h (Clean h (if IsAbs h target then target else Join h [ExecWorkingDir e, target]))
           \<noteq> StatDir"
  shows "\<not> Success (fst (Execute h e command shellName))
         \<and> fst (snd (Execute h e command shellName)) = e
         \<and> CurrentWorkDir (fst (Execute h e command shellName)) = ExecWorkingDir e
         \<and> snd (snd (Execute h e command shellName)) = []"
  using assms
  by (cases "IsAbs h target")
    (auto simp add: Execute_cd handleCD_def Let_def split: statResult.splits)

theorem Execute_cd_failure_keeps_state_witness:
  "extractCDTarget ''Set-Location -Path notes.txt'' = Some ''notes.txt''
   \<and> Stat (sampleHost finished) ''/home/u/notes.txt'' = StatOther
   \<and> Execute (sampleHost finished) (NewExecutor ''/home/u'') ''Set-Location -Path notes.txt''
        ''powershell''
       = (\<lparr>Success = False, Output = [],
           Error = [CHR 0x27] @ ''notes.txt'' @ [CHR 0x27] @ '' is not a directory'',
           NewWorkDir = [], CurrentWorkDir = ''/home/u''\<rparr>,
          NewExecutor ''/home/u'', [])"
proof -
  have t: "extractCDTarget ''Set-Location -Path notes.txt'' = Some ''notes.txt''"
    by (simp add: extractCDTarget_def cleanPathArg_def string_eval)
  have s: "Stat (sampleHost finished)
             (Clean (sampleHost finished)
               (if IsAbs (sampleHost finished) ''notes.txt'' then ''notes.txt''
                else Join (sampleHost finished) [ExecWorkingDir (NewExecutor ''/home/u''), ''notes.txt'']))
           \<noteq> StatDir"
    by (simp add: sampleHost_def NewExecutor_def HasPrefix_def)
  have "Execute (sampleHost finished) (NewExecutor ''/home/u'') ''Set-Location -Path notes.txt''
        ''powershell''
       = (\<lparr>Success = False, Output = [],
           Error = [CHR 0x27] @ ''notes.txt'' @ [CHR 0x27] @ '' is not a directory'',
           NewWorkDir = [], CurrentWorkDir = ''/home/u''\<rparr>,
          NewExecutor ''/home/u'', [])"
    by (simp add: Execute_cd [OF t] handleCD_def sampleHost_def NewExecutor_def HasPrefix_def
        Let_def)
  moreover have "Stat (sampleHost finished) ''/home/u/notes.txt'' = StatOther"
    by (simp add: sampleHost_def)
  ultimately show ?thesis
    using t Execute_cd_failure_keeps_state [OF t s, of "''powershell''"] by simp
qed











section \<open>Properties of the planner\<close>

text \<open>
  Claim C7. The repair pass is to leave valid escape sequences alone. On \<open>mixedEscapes\<close> it
  does not: after the first backslash of the valid sequence \<^verbatim>\<open>\\\<close> the loop moves on by one
  byte only, takes the second backslash for the start of an escape, finds \<^verbatim>\<open>F\<close> after it
  and doubles it. The valid \<^verbatim>\<open>\\\<close> becomes \<^verbatim>\<open>\\\\<close> followed by the invalid \<^verbatim>\<open>\F\<close>, and the
  repaired text is still not JSON.
\<close>

theorem sanitizeJSON_changes_escaped_backslash:
  "sanitizeJSON mixedEscapes
     = ''{'' @ quoted ''command'' @ '':''
         @ quoted (''cd C:'' @ [bsl, bsl, bsl] @ ''Files'' @ [bsl, bsl] @ ''Projects'') @ ''}''"
  by (simp add: sanitizeJSON_def mixedEscapes_def quoted_def validEscapes_def)

lemma candidate_listJSON: "candidate listJSON = listJSON"
  by (simp add: candidate_def ExtractJSON_def listJSON_def quoted_def TrimSpace_def isSpace_def Let_def)

lemma candidate_cwdJSON: "candidate cwdJSON = cwdJSON"
  by (simp add: candidate_def ExtractJSON_def cwdJSON_def quoted_def TrimSpace_def isSpace_def Let_def)

lemma candidate_sorryText: "candidate sorryText = sorryText"
  by (simp add: candidate_def ExtractJSON_def sorryText_def TrimSpace_def isSpace_def Let_def)

lemma sanitizeJSON_sorryText: "sanitizeJSON sorryText = sorryText"
  by (simp add: sanitizeJSON_def sorryText_def)

lemma sorryText_not_json: "sorryText \<noteq> listJSON" "sorryText \<noteq> cwdJSON"
  by (simp_all add: sorryText_def listJSON_def cwdJSON_def)

lemma cwdJSON_not_listJSON: "cwdJSON \<noteq> listJSON"
  by (simp add: listJSON_def cwdJSON_def quoted_def)

lemma ParseResponse_fails:
  assumes "fst (unm (candidate raw) zeroPlan) \<noteq> None"
    and "fst (unm (sanitizeJSON (candidate raw)) (snd (unm (candidate raw) zeroPlan))) \<noteq> None"
  shows "\<exists>e. ParseResponse unm raw = Inl e"
  using assms by (auto simp add: ParseResponse_def Let_def split: prod.splits)

lemma Plan_fallback:
  "ParseResponse unm raw = Inl e \<Longrightarrow>
   Plan unm p (Inr raw)
     = Inr \<lparr>PlanCommand = None, Shell = [], Response = raw,
            Reasoning = ''Could not parse structured output, returning as chat'',
            PlanSafe = False\<rparr>"
  by (simp add: Plan_def)

text \<open>
  Claim C3. When the decoder rejects the candidate text and rejects it again after the
  repair pass, \<open>Plan\<close> returns a plan, not an error; the plan has no command and its
  response is the model's text as it came, untrimmed.
\<close>

theorem Plan_parse_failure_falls_back:
  assumes "fst (unm (candidate raw) zeroPlan) \<noteq> None"
    and "fst (unm (sanitizeJSON (candidate raw)) (snd (unm (candidate raw) zeroPlan))) \<noteq> None"
  shows "\<exists>plan. Plan unm p (Inr raw) = Inr plan \<and> PlanCommand plan = None
           \<and> Response plan = raw"
proof -
  from ParseResponse_fails [OF assms] obtain e where "ParseResponse unm raw = Inl e" ..
  then show ?thesis by (simp add: Plan_fallback)
qed

theorem Plan_parse_failure_falls_back_witness:
  "fst (sampleUnmarshal (candidate sorryText) zeroPlan) \<noteq> None
   \<and> fst (sampleUnmarshal (sanitizeJSON (candidate sorryText))
        (snd (sampleUnmarshal (candidate sorryText) zeroPlan))) \<noteq> None
   \<and> Plan sampleUnmarshal samplePlanner (Inr sorryText)
       = Inr \<lparr>PlanCommand = None, Shell = [], Response = sorryText,
              Reasoning = ''Could not parse structured output, returning as chat'',
              PlanSafe = False\<rparr>"
proof -
  have a: "fst (sampleUnmarshal (candidate sorryText) zeroPlan) \<noteq> None"
    by (simp add: candidate_sorryText sampleUnmarshal_def sorryText_not_json)
  have b: "fst (sampleUnmarshal (sanitizeJSON (candidate sorryText))
        (snd (sampleUnmarshal (candidate sorryText) zeroPlan))) \<noteq> None"
    by (simp add: candidate_sorryText sanitizeJSON_sorryText sampleUnmarshal_def sorryText_not_json)
  from ParseResponse_fails [OF a b]
  obtain e where "ParseResponse sampleUnmarshal sorryText = Inl e" ..
  then have "Plan sampleUnmarshal samplePlanner (Inr sorryText)
       = Inr \<lparr>PlanCommand = None, Shell = [], Response = sorryText,
              Reasoning = ''Could not parse structured output, returning as chat'',
              PlanSafe = False\<rparr>"
    by (rule Plan_fallback)
  with a b Plan_parse_failure_falls_back [OF a b, of samplePlanner] show ?thesis by simp
qed

lemma ParseResponse_command:
  assumes "ParseResponse unm raw = Inr parsed" and "PlanCommand parsed = Some c"
  shows "TrimSpace c \<noteq> [] \<and> TrimSpace c \<noteq> ''null''"
  using assms
  by (auto simp add: ParseResponse_def Let_def split: prod.splits option.splits if_splits)

lemma Plan_parsed:
  "ParseResponse unm raw = Inr parsed \<Longrightarrow>
   Plan unm p (Inr raw)
     = Inr (parsed\<lparr>Shell := (if Shell parsed = [] then shell p else Shell parsed),
                   PlanCommand :=
                     (case mem p of
                        None \<Rightarrow> PlanCommand parsed
                      | Some m \<Rightarrow>
                          map_option (\<lambda>c. sanitizeCommand c (WorkingDir m)) (PlanCommand parsed))\<rparr>)"
  by (simp add: Plan_def Let_def split: option.splits)

text \<open>
  Claim C2, amended. Let \<open>Plan\<close> return a plan for the model text \<open>raw\<close>. If
  \<open>ParseResponse\<close> fails on \<open>raw\<close>, the plan is the chat plan: no command, empty shell.
  If \<open>ParseResponse\<close> returns \<open>parsed\<close>, then the command of \<open>parsed\<close>, when there is
  one, has a trimmed text that is neither empty nor \<^verbatim>\<open>null\<close>, and the plan is \<open>parsed\<close> with
  two fields set: the command is that same command after \<open>sanitizeCommand\<close> with the
  working directory of the memory (unchanged without a memory, absent when \<open>parsed\<close> has
  none), and the shell is the shell of \<open>parsed\<close> when that is not empty and the planner's
  default shell when it is.
\<close>

theorem Plan_result_shape:
  assumes "Plan unm p inferred = Inr plan"
  shows "\<exists>raw. inferred = Inr raw \<and>
     (case ParseResponse unm raw of
        Inl err \<Rightarrow>
          plan = \<lparr>PlanCommand = None, Shell = [], Response = raw,
                  Reasoning = ''Could not parse structured output, returning as chat'',
                  PlanSafe = False\<rparr>
      | Inr parsed \<Rightarrow>
          (\<forall>c. PlanCommand parsed = Some c \<longrightarrow> TrimSpace c \<noteq> [] \<and> TrimSpace c \<noteq> ''null'')
          \<and> plan = parsed
               \<lparr>Shell := (if Shell parsed = [] then shell p else Shell parsed),
                PlanCommand :=
                  (case mem p of
                     None \<Rightarrow> PlanCommand parsed
                   | Some m \<Rightarrow>
                       map_option (\<lambda>c. sanitizeCommand c (WorkingDir m))
                         (PlanCommand parsed))\<rparr>)"
proof -
  from assms obtain raw where raw: "inferred = Inr raw"
    by (cases inferred) (simp_all add: Plan_def)
  show ?thesis
  proof (cases "ParseResponse unm raw")
    case (Inl e)
    from Plan_fallback [OF Inl, of p] assms raw Inl show ?thesis by auto
  next
    case (Inr parsed)
    from ParseResponse_command [OF Inr]
    have "\<forall>c. PlanCommand parsed = Some c \<longrightarrow> TrimSpace c \<noteq> [] \<and> TrimSpace c \<noteq> ''null''"
      by blast
    with Plan_parsed [OF Inr, of p] assms raw Inr show ?thesis by auto
  qed
qed

lemma ParseResponse_listJSON:
  "ParseResponse sampleUnmarshal listJSON
     = Inr \<lparr>PlanCommand = Some ''Get-ChildItem /home/u/proj'', Shell = [],
            Response = ''Listing files'', Reasoning = [], PlanSafe = True\<rparr>"
  by (simp add: ParseResponse_def candidate_listJSON sampleUnmarshal_def zeroPlan_def
      TrimSpace_def isSpace_def)

lemma ParseResponse_cwdJSON:
  "ParseResponse sampleUnmarshal cwdJSON
     = Inr \<lparr>PlanCommand = Some ''/home/u/'', Shell = ''bash'',
            Response = ''here'', Reasoning = [], PlanSafe = False\<rparr>"
  by (simp add: ParseResponse_def candidate_cwdJSON sampleUnmarshal_def zeroPlan_def
      cwdJSON_not_listJSON TrimSpace_def isSpace_def)

lemma sanitize_list: "sanitizeCommand ''Get-ChildItem /home/u/proj'' ''/home/u'' = ''Get-ChildItem proj''"
  by (simp add: sanitizeCommand_def cwdVariants_def ReplaceAll_def stripFold_def ToLower_def
      toLowerByte_def)

lemma sanitize_cwd: "sanitizeCommand ''/home/u/'' ''/home/u'' = []"
  by (simp add: sanitizeCommand_def cwdVariants_def ReplaceAll_def stripFold_def ToLower_def
      toLowerByte_def)

theorem Plan_result_shape_witness:
  "Plan sampleUnmarshal samplePlanner (Inr listJSON)
     = Inr \<lparr>PlanCommand = Some ''Get-ChildItem proj'', Shell = ''powershell'',
            Response = ''Listing files'', Reasoning = [], PlanSafe = True\<rparr>
   \<and> ParseResponse sampleUnmarshal listJSON
     = Inr \<lparr>PlanCommand = Some ''Get-ChildItem /home/u/proj'', Shell = [],
            Response = ''Listing files'', Reasoning = [], PlanSafe = True\<rparr>
   \<and> TrimSpace ''Get-ChildItem /home/u/proj'' \<noteq> []
   \<and> TrimSpace ''Get-ChildItem /home/u/proj'' \<noteq> ''null''
   \<and> sanitizeCommand ''Get-ChildItem /home/u/proj'' ''/home/u'' = ''Get-ChildItem proj''"
proof -
  have p: "Plan sampleUnmarshal samplePlanner (Inr listJSON)
     = Inr \<lparr>PlanCommand = Some ''Get-ChildItem proj'', Shell = ''powershell'',
            Response = ''Listing files'', Reasoning = [], PlanSafe = True\<rparr>"
    by (simp add: Plan_parsed [OF ParseResponse_listJSON] samplePlanner_def NewMemory_def
        sanitize_list)
  from Plan_result_shape [OF p]
  have "TrimSpace ''Get-ChildItem /home/u/proj'' \<noteq> []
   \<and> TrimSpace ''Get-ChildItem /home/u/proj'' \<noteq> ''null''"
    by (simp add: ParseResponse_listJSON)
  with p sanitize_list ParseResponse_listJSON show ?thesis by simp
qed

text \<open>
  Claim C2 as stated fails. With the working directory \<^verbatim>\<open>/home/u\<close>, the answer \<open>cwdJSON\<close>
  gives a plan whose command is the empty string, not null (the command \<^verbatim>\<open>/home/u/\<close> is
  one of the spellings that \<open>sanitizeCommand\<close> removes), and whose shell is \<^verbatim>\<open>bash\<close>; the
  chat answer \<open>sorryText\<close> gives a plan whose shell is the empty string.
\<close>

theorem Plan_empty_command_other_shell_counterexample:
  "Plan sampleUnmarshal samplePlanner (Inr cwdJSON)
     = Inr \<lparr>PlanCommand = Some [], Shell = ''bash'', Response = ''here'', Reasoning = [],
            PlanSafe = False\<rparr>
   \<and> Plan sampleUnmarshal samplePlanner (Inr sorryText)
     = Inr \<lparr>PlanCommand = None, Shell = [], Response = sorryText,
            Reasoning = ''Could not parse structured output, returning as chat'',
            PlanSafe = False\<rparr>"
proof -
  have "ParseResponse sampleUnmarshal sorryText = Inl ''JSON parse error: invalid character''"
    by (simp add: ParseResponse_def candidate_sorryText sanitizeJSON_sorryText
        sampleUnmarshal_def sorryText_not_json)
  then show ?thesis
    by (simp add: Plan_fallback Plan_parsed [OF ParseResponse_cwdJSON] samplePlanner_def
        NewMemory_def sanitize_cwd)
qed

section \<open>Compaction of the conversation memory\<close>

lemma updateHints_frame [simp]:
  "Exchanges (updateHints command response m) = Exchanges m"
  "MaxExchanges (updateHints command response m) = MaxExchanges m"
  "CompactAfter (updateHints command response m) = CompactAfter m"
  "dataDir (updateHints command response m) = dataDir m"
  "WorkingDir (updateHints command response m) = WorkingDir m"
  by (simp_all add: updateHints_def Let_def)

lemma recorded_frame [simp]:
  "Exchanges (recorded c m) = Exchanges m @ [exchangeOf c]"
  "MaxExchanges (recorded c m) = MaxExchanges m"
  "CompactAfter (recorded c m) = CompactAfter m"
  "dataDir (recorded c m) = dataDir m"
  "WorkingDir (recorded c m) = WorkingDir m"
  by (simp_all add: recorded_def)
























end
